theory Spec2Isabelle
  imports Complex_Main
begin

section \<open>Prices, dates and quotes\<close>

text \<open>
  Both programs keep prices in Python floats and use \<^verbatim>\<open>float('inf')\<close> as the
  "nothing yet" value. A price is modelled as a real number or positive infinity, ordered
  as Python orders floats. Rounding of very long digit strings and NaN are outside the
  model: the scraper builds prices from digit strings only, the API variant from the
  decimal string of the offer.
\<close>

datatype price = Fin real | PInf

instantiation price :: linorder
begin

fun less_eq_price :: "price \<Rightarrow> price \<Rightarrow> bool" where
  "less_eq_price (Fin a) (Fin b) = (a \<le> b)"
| "less_eq_price PInf (Fin b) = False"
| "less_eq_price p PInf = True"

definition less_price :: "price \<Rightarrow> price \<Rightarrow> bool" where
  "less_price p q = (p \<le> q \<and> \<not> q \<le> p)"

instance
proof
  fix x y z :: price
  show "(x < y) = (x \<le> y \<and> \<not> y \<le> x)"
    by (simp add: less_price_def)
  show "x \<le> x"
    by (cases x) simp_all
  show "x \<le> y \<Longrightarrow> y \<le> z \<Longrightarrow> x \<le> z"
    by (cases x; cases y; cases z) simp_all
  show "x \<le> y \<Longrightarrow> y \<le> x \<Longrightarrow> x = y"
    by (cases x; cases y) simp_all
  show "x \<le> y \<or> y \<le> x"
    by (cases x; cases y) auto
qed

end

text \<open>
  A date is its day number. \<^verbatim>\<open>today + timedelta(days=n)\<close> is addition, and
  \<^verbatim>\<open>strftime('%Y-%m-%d')\<close> renders each day as one string, so the model keeps the
  day itself where the code keeps the string. (The end of Python's calendar, year 9999,
  is outside the model.)
\<close>

type_synonym date = int

text \<open>
  The link of the API variant is an f-string of the route and the two dates; the model keeps
  the four values it is formatted from.
\<close>

datatype link = GoogleFlightsLink string string date date

text \<open>
  The quote dictionaries of both programs. A key the dictionary does not have is
  \<open>None\<close>: the scraper's quotes have \<^verbatim>\<open>airline\<close> and \<^verbatim>\<open>duration\<close>, its
  Kayak quotes also \<^verbatim>\<open>source\<close>, the quotes of the API variant have \<^verbatim>\<open>link\<close>.
\<close>

record flight_info =
  price :: price
  departure_date :: date
  return_date :: date
  airline :: "string option"
  duration :: "string option"
  source :: "string option"
  link :: "link option"

datatype exn = ValueError | KeyError | JSONDecodeError | PermissionError | OSError

text \<open>
  Python's \<^verbatim>\<open>min(xs, key=f)\<close> on a non-empty list: the first element whose key no
  other element undercuts. \<open>min_by f x xs\<close> is \<^verbatim>\<open>min([x] + xs, key=f)\<close>.
\<close>

fun min_by :: "('a \<Rightarrow> price) \<Rightarrow> 'a \<Rightarrow> 'a list \<Rightarrow> 'a" where
  "min_by f best [] = best"
| "min_by f best (x # xs) = min_by f (if f x < f best then x else best) xs"

section \<open>The scraper (claude.py)\<close>

subsection \<open>parse_price\<close>

definition is_digit :: "char \<Rightarrow> bool" where
  "is_digit c = (c \<in> set ''0123456789'')"

definition in_class :: "char \<Rightarrow> bool" where
  "in_class c = (is_digit c \<or> c = CHR '','')"

definition digit_val :: "char \<Rightarrow> nat" where
  "digit_val c = of_char c - 48"

definition decimal :: "string \<Rightarrow> nat" where
  "decimal ds = foldl (\<lambda>n c. 10 * n + digit_val c) 0 ds"

text \<open>
  \<^verbatim>\<open>re.search(r'[\d,]+', price_text)\<close> finds the first maximal run of digits and
  commas. With no such run the function returns \<^verbatim>\<open>float('inf')\<close>. A run of commas
  only leaves the empty string after \<^verbatim>\<open>replace(',', '')\<close>, on which \<^verbatim>\<open>float\<close>
  raises ValueError. The digits of the model are the ASCII digits.
\<close>

definition parse_price :: "string \<Rightarrow> exn + price" where
  "parse_price price_text =
     (let price_match = takeWhile in_class (dropWhile (\<lambda>c. \<not> in_class c) price_text) in
      if price_match \<noteq> [] then
        (let digits = filter (\<lambda>c. c \<noteq> CHR '','') price_match in
         if digits = [] then Inl ValueError else Inr (Fin (real (decimal digits))))
      else Inr PInf)"

subsection \<open>search_google_flights\<close>

text \<open>
  What the browser shows for one search. \<open>GFailed\<close>: the driver or the page raised, the
  outer handler returns None. \<open>GNoResults\<close>: no list item appeared in 20 seconds.
  \<open>GCards\<close>: the flight cards found. Of a card the code reads the text of the price
  element (\<open>None\<close> when \<^verbatim>\<open>find_element\<close> raises) and the airline and duration
  (\<open>None\<close> when anything in the inner \<^verbatim>\<open>try\<close> raises).
\<close>

record card =
  price_text :: "string option"
  details :: "(string \<times> string) option"

datatype google_page = GFailed | GNoResults | GCards "card list"

text \<open>One pass of the loop over the cards; \<open>None\<close> is the \<^verbatim>\<open>continue\<close> of the handler.\<close>

definition parse_card :: "date \<Rightarrow> date \<Rightarrow> card \<Rightarrow> flight_info option" where
  "parse_card dep ret flight =
     (case price_text flight of
        None \<Rightarrow> None
      | Some t \<Rightarrow>
          (case parse_price t of
             Inl e \<Rightarrow> None
           | Inr p \<Rightarrow>
               Some \<lparr>price = p, departure_date = dep, return_date = ret,
                 airline = Some (case details flight of None \<Rightarrow> ''Unknown'' | Some (a, d) \<Rightarrow> a),
                 duration = Some (case details flight of None \<Rightarrow> ''Unknown'' | Some (a, d) \<Rightarrow> d),
                 source = None, link = None\<rparr>))"

definition search_google_flights :: "google_page \<Rightarrow> date \<Rightarrow> date \<Rightarrow> flight_info option" where
  "search_google_flights page dep ret =
     (case page of
        GFailed \<Rightarrow> None
      | GNoResults \<Rightarrow> None
      | GCards flight_elements \<Rightarrow>
          (case List.map_filter (parse_card dep ret) (take 5 flight_elements) of
             [] \<Rightarrow> None
           | r # rs \<Rightarrow> Some (min_by price r rs)))"

subsection \<open>search_kayak\<close>

text \<open>
  \<open>KFailed\<close>: the driver or the page raised. \<open>KSecurityCheck\<close>: the page shows a
  security check. \<open>KTimeout\<close>: no price element in 20 seconds. \<open>KPrices\<close>: the texts of
  the price elements (\<open>None\<close> when reading the text raises).
\<close>

datatype kayak_page = KFailed | KSecurityCheck | KTimeout | KPrices "string option list"

definition kayak_price :: "string option \<Rightarrow> price option" where
  "kayak_price elem =
     (case elem of
        None \<Rightarrow> None
      | Some t \<Rightarrow>
          (case parse_price t of
             Inl e \<Rightarrow> None
           | Inr p \<Rightarrow> if p < PInf then Some p else None))"

definition search_kayak :: "kayak_page \<Rightarrow> date \<Rightarrow> date \<Rightarrow> flight_info option" where
  "search_kayak page dep ret =
     (case page of
        KFailed \<Rightarrow> None
      | KSecurityCheck \<Rightarrow> None
      | KTimeout \<Rightarrow> None
      | KPrices price_elements \<Rightarrow>
          (case List.map_filter kayak_price (take 5 price_elements) of
             [] \<Rightarrow> None
           | p # ps \<Rightarrow>
               Some \<lparr>price = min_by (\<lambda>x. x) p ps, departure_date = dep, return_date = ret,
                 airline = Some ''Multiple'', duration = Some ''Check website'',
                 source = Some ''Kayak'', link = None\<rparr>))"

subsection \<open>check_all_dates\<close>

text \<open>The two sites, as functions of the dates searched.\<close>

record web =
  google :: "date \<Rightarrow> date \<Rightarrow> google_page"
  kayak :: "date \<Rightarrow> date \<Rightarrow> kayak_page"

datatype call = Google date date | Kayak date date

text \<open>The local variables of the sweep, and the searches made so far, in order.\<close>

record sweep =
  best_flight :: "flight_info option"
  best_price :: price
  calls :: "call list"

text \<open>The body of the inner loop, for one departure offset and one trip length.\<close>

definition visit :: "web \<Rightarrow> date \<Rightarrow> int \<Rightarrow> int \<Rightarrow> sweep \<Rightarrow> sweep" where
  "visit w today dep_days trip_length s =
     (let departure = today + dep_days;
          return = today + (dep_days + trip_length);
          s1 = s\<lparr>calls := calls s @ [Google departure return]\<rparr>;
          first_info = search_google_flights (google w departure return) departure return;
          s2 = (if first_info = None then s1\<lparr>calls := calls s1 @ [Kayak departure return]\<rparr>
                else s1);
          info = (if first_info = None
                  then search_kayak (kayak w departure return) departure return
                  else first_info)
      in case info of
           None \<Rightarrow> s2
         | Some f \<Rightarrow>
             if price f < best_price s2
             then s2\<lparr>best_price := price f, best_flight := Some f\<rparr>
             else s2)"

definition sweep_all_dates :: "web \<Rightarrow> int \<Rightarrow> date \<Rightarrow> sweep" where
  "sweep_all_dates w search_days today =
     fold (\<lambda>dep_days. fold (visit w today dep_days) [2..7]) [1..search_days]
       \<lparr>best_flight = None, best_price = PInf, calls = []\<rparr>"

definition check_all_dates :: "web \<Rightarrow> int \<Rightarrow> date \<Rightarrow> flight_info option" where
  "check_all_dates w search_days today = best_flight (sweep_all_dates w search_days today)"

section \<open>The API variant (weeks.py)\<close>

definition ORIGIN_CITY_CODE :: string where
  "ORIGIN_CITY_CODE = ''AUS''"

definition DESTINATION_CITY_CODE :: string where
  "DESTINATION_CITY_CODE = ''SFO''"

definition TRIP_DURATION_DAYS :: int where
  "TRIP_DURATION_DAYS = 14"

definition SEARCH_WITHIN_DAYS :: int where
  "SEARCH_WITHIN_DAYS = 14"

subsection \<open>find_cheapest_flight\<close>

text \<open>
  What one request to the flight-offers endpoint does. \<open>RequestFailed\<close>:
  \<^verbatim>\<open>requests.get\<close> or \<^verbatim>\<open>raise_for_status\<close> raised a RequestException.
  \<open>Status400\<close>: the status code is 400. \<open>Offers\<close>: the prices
  \<^verbatim>\<open>float(x["price"]["total"])\<close> of the offers under \<^verbatim>\<open>"data"\<close>, in order.
  \<open>Malformed\<close>: the status is good, but the body is not of that shape, and reading it
  raises an exception that is not a RequestException (a KeyError for an offer without
  \<^verbatim>\<open>"price"\<close>, a ValueError for a total that is no number).
\<close>

datatype api_response = RequestFailed | Status400 | Malformed exn | Offers "price list"

text \<open>
  The loop of \<^verbatim>\<open>find_cheapest_flight\<close>, from \<open>current_date\<close> on, with the value of
  \<open>cheapest_flight\<close> and the requests sent so far. The handler catches
  RequestException only, so the exception of a malformed body leaves the function. The
  access token is passed through to the request and has no part in the result.
\<close>

function find_loop ::
  "(date \<Rightarrow> date \<Rightarrow> api_response) \<Rightarrow> string \<Rightarrow> string \<Rightarrow> date \<Rightarrow> int \<Rightarrow>
   date \<Rightarrow> flight_info option \<Rightarrow> (date \<times> date) list \<Rightarrow>
   (exn + flight_info option) \<times> (date \<times> date) list" where
  "find_loop api origin destination end_date trip_duration current_date cheapest_flight sent =
     (if current_date \<le> end_date then
        (case api current_date (current_date + trip_duration) of
           RequestFailed \<Rightarrow>
             find_loop api origin destination end_date trip_duration (current_date + 1)
               cheapest_flight (sent @ [(current_date, current_date + trip_duration)])
         | Status400 \<Rightarrow>
             find_loop api origin destination end_date trip_duration (current_date + 1)
               cheapest_flight (sent @ [(current_date, current_date + trip_duration)])
         | Malformed e \<Rightarrow> (Inl e, sent @ [(current_date, current_date + trip_duration)])
         | Offers [] \<Rightarrow>
             find_loop api origin destination end_date trip_duration (current_date + 1)
               cheapest_flight (sent @ [(current_date, current_date + trip_duration)])
         | Offers (p # ps) \<Rightarrow>
             find_loop api origin destination end_date trip_duration (current_date + 1)
               (if (case cheapest_flight of
                      None \<Rightarrow> True
                    | Some c \<Rightarrow> min_by (\<lambda>x. x) p ps < price c)
                then Some \<lparr>price = min_by (\<lambda>x. x) p ps, departure_date = current_date,
                       return_date = current_date + trip_duration, airline = None,
                       duration = None, source = None,
                       link = Some (GoogleFlightsLink origin destination current_date
                                (current_date + trip_duration))\<rparr>
                else cheapest_flight)
               (sent @ [(current_date, current_date + trip_duration)]))
      else (Inr cheapest_flight, sent))"
  by pat_completeness auto
termination
  by (relation "measure (\<lambda>(api, origin, destination, end_date, trip_duration, current_date,
        cheapest_flight, sent). nat (end_date + 1 - current_date))") auto

definition find_cheapest_flight ::
  "(date \<Rightarrow> date \<Rightarrow> api_response) \<Rightarrow> string \<Rightarrow> string \<Rightarrow> date \<Rightarrow> date \<Rightarrow> int \<Rightarrow>
   (exn + flight_info option) \<times> (date \<times> date) list" where
  "find_cheapest_flight api origin destination start_date end_date trip_duration =
     find_loop api origin destination end_date trip_duration start_date None []"

subsection \<open>The ledger file: load_best_price and save_best_price\<close>

text \<open>
  The file \<^verbatim>\<open>best_price.json\<close>. \<open>Missing\<close>: no such file. \<open>Unreadable\<close>: the file
  exists and \<^verbatim>\<open>open\<close> raises. Otherwise its text: \<open>Blank\<close> is the empty file,
  \<open>Garbled\<close> any other text that is no JSON document, \<open>Dumped f\<close> what
  \<^verbatim>\<open>json.dump\<close> writes for the dictionary \<open>f\<close>. Nothing but
  \<^verbatim>\<open>save_best_price\<close> writes JSON documents to the file, so a document of another
  shape is outside the model.
\<close>

datatype ledger_text = Blank | Garbled | Dumped flight_info

datatype ledger_file = Missing | Unreadable | Text ledger_text

text \<open>What the load returns: \<open>NoRecordYet\<close> is the dictionary \<^verbatim>\<open>{"price": float('inf')}\<close>.\<close>

datatype ledger_value = NoRecordYet | Stored flight_info

fun ledger_price :: "ledger_value \<Rightarrow> price" where
  "ledger_price NoRecordYet = PInf"
| "ledger_price (Stored f) = price f"

fun load_best_price :: "ledger_file \<Rightarrow> exn + ledger_value" where
  "load_best_price Missing = Inr NoRecordYet"
| "load_best_price Unreadable = Inl PermissionError"
| "load_best_price (Text Blank) = Inl JSONDecodeError"
| "load_best_price (Text Garbled) = Inl JSONDecodeError"
| "load_best_price (Text (Dumped f)) = Inr (Stored f)"

text \<open>
  The disk at the time of a save. \<open>ReadOnly\<close>: \<^verbatim>\<open>open(BEST_PRICE_FILE, "w")\<close> raises
  and the file stays as it was. \<open>Full\<close>: the file is opened, and so emptied, and the
  write raises. \<open>Writable\<close>: the write succeeds.

  \<open>save_best_price_states\<close> lists the contents the ledger file passes through during
  the save, in order: opening with mode \<^verbatim>\<open>"w"\<close> empties the file in place, and
  closing it leaves the dumped dictionary there.
\<close>

datatype disk = Writable | ReadOnly | Full

fun save_best_price_states :: "disk \<Rightarrow> flight_info \<Rightarrow> ledger_file list" where
  "save_best_price_states Writable flight_info = [Text Blank, Text (Dumped flight_info)]"
| "save_best_price_states ReadOnly flight_info = []"
| "save_best_price_states Full flight_info = [Text Blank]"

fun save_raises :: "disk \<Rightarrow> exn option" where
  "save_raises Writable = None"
| "save_raises ReadOnly = Some PermissionError"
| "save_raises Full = Some OSError"

definition save_best_price :: "disk \<Rightarrow> ledger_file \<Rightarrow> flight_info \<Rightarrow> exn option \<times> ledger_file" where
  "save_best_price d file flight_info =
     (save_raises d, last (file # save_best_price_states d flight_info))"

subsection \<open>One pass of the loop of main\<close>

text \<open>
  The test of line 198, \<^verbatim>\<open>current_cheapest and current_cheapest["price"] <
  all_time_best["price"]\<close>.
\<close>

definition is_new_record :: "flight_info option \<Rightarrow> ledger_value \<Rightarrow> bool" where
  "is_new_record current_cheapest all_time_best =
     (case current_cheapest of
        None \<Rightarrow> False
      | Some c \<Rightarrow> price c < ledger_price all_time_best)"

record world =
  ledger :: ledger_file
  disk_state :: disk
  flight_api :: "date \<Rightarrow> date \<Rightarrow> api_response"
  date_today :: date

text \<open>
  \<open>Commit f\<close>: \<^verbatim>\<open>save_best_price(f)\<close> has returned. \<open>Notify f\<close>:
  \<^verbatim>\<open>send_email_notification(f)\<close> has been called (it catches its own failures).
\<close>

datatype event = Commit flight_info | Notify flight_info

record cycle =
  raised :: "exn option"
  events :: "event list"
  ledger_after :: ledger_file

definition run_cycle :: "world \<Rightarrow> cycle" where
  "run_cycle w =
     (case load_best_price (ledger w) of
        Inl e \<Rightarrow> \<lparr>raised = Some e, events = [], ledger_after = ledger w\<rparr>
      | Inr all_time_best \<Rightarrow>
          (case fst (find_cheapest_flight (flight_api w) ORIGIN_CITY_CODE DESTINATION_CITY_CODE
                       (date_today w + 1) (date_today w + SEARCH_WITHIN_DAYS)
                       TRIP_DURATION_DAYS) of
             Inl e \<Rightarrow> \<lparr>raised = Some e, events = [], ledger_after = ledger w\<rparr>
           | Inr None \<Rightarrow> \<lparr>raised = None, events = [], ledger_after = ledger w\<rparr>
           | Inr (Some c) \<Rightarrow>
               if is_new_record (Some c) all_time_best then
                 (case save_best_price (disk_state w) (ledger w) c of
                    (Some e, file) \<Rightarrow> \<lparr>raised = Some e, events = [], ledger_after = file\<rparr>
                  | (None, file) \<Rightarrow>
                      \<lparr>raised = None, events = [Commit c, Notify c], ledger_after = file\<rparr>)
               else \<lparr>raised = None, events = [], ledger_after = ledger w\<rparr>))"

subsection \<open>load_price_history of the scraper\<close>

text \<open>
  The file \<^verbatim>\<open>price_history.json\<close>: missing, not to be opened, no JSON document, or
  a list of entries, each with the keys \<^verbatim>\<open>price\<close> and \<^verbatim>\<open>flight_info\<close>
  (\<open>None\<close> where an entry lacks the key).
\<close>

record entry =
  entry_price :: "price option"
  entry_flight_info :: "flight_info option"

datatype history_file = HMissing | HUnreadable | HGarbled | HEntries "entry list"

record scraper =
  self_best_price :: price
  self_best_flight_info :: "flight_info option"
  self_price_history :: "entry list"

definition scraper_init :: scraper where
  "scraper_init = \<lparr>self_best_price = PInf, self_best_flight_info = None, self_price_history = []\<rparr>"

text \<open>
  The body of the \<^verbatim>\<open>try\<close>: the state reached, and the exception that ended it, if
  any. The fields are assigned one by one, so an exception keeps what was assigned before.
\<close>

definition load_price_history_body :: "scraper \<Rightarrow> history_file \<Rightarrow> exn option \<times> scraper" where
  "load_price_history_body self file =
     (case file of
        HMissing \<Rightarrow> (None, self)
      | HUnreadable \<Rightarrow> (Some PermissionError, self)
      | HGarbled \<Rightarrow> (Some JSONDecodeError, self)
      | HEntries [] \<Rightarrow> (None, self\<lparr>self_price_history := []\<rparr>)
      | HEntries (x # xs) \<Rightarrow>
          (let self1 = self\<lparr>self_price_history := x # xs\<rparr> in
           if \<exists>y \<in> set (x # xs). entry_price y = None then (Some KeyError, self1)
           else
             (let best_entry = min_by (\<lambda>y. the (entry_price y)) x xs;
                  self2 = self1\<lparr>self_best_price := the (entry_price best_entry)\<rparr>
              in case entry_flight_info best_entry of
                   None \<Rightarrow> (Some KeyError, self2)
                 | Some f \<Rightarrow> (None, self2\<lparr>self_best_flight_info := Some f\<rparr>))))"

text \<open>The \<^verbatim>\<open>except Exception\<close> logs the exception and returns.\<close>

definition load_price_history :: "scraper \<Rightarrow> history_file \<Rightarrow> scraper" where
  "load_price_history self file = snd (load_price_history_body self file)"

section \<open>Notions used in the claims\<close>

text \<open>
  The reduction as the specification words it: of the quotes, in the order in which they
  were obtained, the first one whose price no other quote undercuts; none when there is
  no quote.
\<close>

definition spec_discover :: "flight_info list \<Rightarrow> flight_info option" where
  "spec_discover quotes = find (\<lambda>q. \<forall>q' \<in> set quotes. price q \<le> price q') quotes"

text \<open>
  \<open>first_min qs b\<close>: the quote \<open>b\<close> occurs in \<open>qs\<close>, every quote before it is
  strictly dearer and no quote after it is cheaper.
\<close>

definition first_min :: "flight_info list \<Rightarrow> flight_info \<Rightarrow> bool" where
  "first_min qs b = (\<exists>pre post. qs = pre @ b # post \<and> (\<forall>y \<in> set pre. price b < price y)
      \<and> (\<forall>y \<in> set post. price b \<le> price y))"

text \<open>The state of a sweep before the first search.\<close>

definition sweep_init :: sweep where
  "sweep_init = \<lparr>best_flight = None, best_price = PInf, calls = []\<rparr>"

text \<open>
  The quote that lines 285 to 290 obtain for one pair of dates, and the searches they make
  for it.
\<close>

definition fallback :: "web \<Rightarrow> date \<Rightarrow> date \<Rightarrow> flight_info option" where
  "fallback w dep ret =
     (case search_google_flights (google w dep ret) dep ret of
        None \<Rightarrow> search_kayak (kayak w dep ret) dep ret
      | Some f \<Rightarrow> Some f)"

definition calls_for :: "web \<Rightarrow> date \<Rightarrow> date \<Rightarrow> call list" where
  "calls_for w dep ret =
     Google dep ret #
       (if search_google_flights (google w dep ret) dep ret = None then [Kayak dep ret] else [])"

text \<open>
  The pairs of departure offset and trip length that the two loops of
  \<^verbatim>\<open>check_all_dates\<close> run through, the pairs of dates they stand for, and the
  quotes obtained for them, all in the order of the loops.
\<close>

definition offsets :: "int \<Rightarrow> (int \<times> int) list" where
  "offsets search_days = concat (map (\<lambda>dep_days. map (Pair dep_days) [2..7]) [1..search_days])"

definition date_pairs :: "int \<Rightarrow> date \<Rightarrow> (date \<times> date) list" where
  "date_pairs search_days today = map (\<lambda>(d, t). (today + d, today + (d + t))) (offsets search_days)"

definition quotes_obtained :: "web \<Rightarrow> int \<Rightarrow> date \<Rightarrow> flight_info list" where
  "quotes_obtained w search_days today =
     List.map_filter (\<lambda>(dep, ret). fallback w dep ret) (date_pairs search_days today)"

definition quotes_of :: "web \<Rightarrow> date \<Rightarrow> (int \<times> int) list \<Rightarrow> flight_info list" where
  "quotes_of w today ps = List.map_filter (\<lambda>(d, t). fallback w (today + d) (today + (d + t))) ps"

text \<open>
  The same for the API variant: the quote that one pass of the loop of
  \<^verbatim>\<open>find_cheapest_flight\<close> builds for a departure date, and the quotes of all
  departure dates from \<open>start_date\<close> to \<open>end_date\<close>.
\<close>

fun is_malformed :: "api_response \<Rightarrow> bool" where
  "is_malformed (Malformed e) = True"
| "is_malformed r = False"

definition offer_quote ::
  "(date \<Rightarrow> date \<Rightarrow> api_response) \<Rightarrow> string \<Rightarrow> string \<Rightarrow> int \<Rightarrow> date \<Rightarrow> flight_info option" where
  "offer_quote api origin destination trip_duration d =
     (case api d (d + trip_duration) of
        Offers (p # ps) \<Rightarrow>
          Some \<lparr>price = min_by (\<lambda>x. x) p ps, departure_date = d,
            return_date = d + trip_duration, airline = None, duration = None, source = None,
            link = Some (GoogleFlightsLink origin destination d (d + trip_duration))\<rparr>
      | _ \<Rightarrow> None)"

definition offers_obtained ::
  "(date \<Rightarrow> date \<Rightarrow> api_response) \<Rightarrow> string \<Rightarrow> string \<Rightarrow> date \<Rightarrow> date \<Rightarrow> int \<Rightarrow> flight_info list" where
  "offers_obtained api origin destination start_date end_date trip_duration =
     List.map_filter (offer_quote api origin destination trip_duration) [start_date..end_date]"

section \<open>Example inputs\<close>

text \<open>
  A Google Flights page whose only card shows no price in its price element, with Kayak
  showing a price for every pair of dates.
\<close>

definition sold_out_web :: web where
  "sold_out_web =
     \<lparr>google = (\<lambda>dep ret. GCards [\<lparr>price_text = Some ''Price unavailable'', details = None\<rparr>]),
       kayak = (\<lambda>dep ret. KPrices [Some ''$199''])\<rparr>"

text \<open>
  Google Flights shows two cards for trips of two days and nothing else; Kayak shows
  three price elements for trips of three days, one of which cannot be read.
\<close>

definition example_web :: web where
  "example_web =
     \<lparr>google = (\<lambda>dep ret. if ret = dep + 2 then
          GCards [\<lparr>price_text = Some ''$350'', details = Some (''United'', ''4 hr 5 min'')\<rparr>,
                  \<lparr>price_text = Some ''$1,280'', details = None\<rparr>]
          else GNoResults),
       kayak = (\<lambda>dep ret. if ret = dep + 3 then KPrices [Some ''$350'', None, Some ''$299 '']
          else KTimeout)\<rparr>"

text \<open>The two quotes that \<open>example_web\<close> yields for departures on day 1.\<close>

definition q350 :: flight_info where
  "q350 = \<lparr>price = Fin 350, departure_date = 1, return_date = 3, airline = Some ''United'',
     duration = Some ''4 hr 5 min'', source = None, link = None\<rparr>"

definition q299 :: flight_info where
  "q299 = \<lparr>price = Fin 299, departure_date = 1, return_date = 4, airline = Some ''Multiple'',
     duration = Some ''Check website'', source = Some ''Kayak'', link = None\<rparr>"

text \<open>Every search of either site fails.\<close>

definition failing_web :: web where
  "failing_web = \<lparr>google = (\<lambda>dep ret. GFailed), kayak = (\<lambda>dep ret. KSecurityCheck)\<rparr>"

text \<open>
  An API that has offers for departures on days 1 to 3, fails on days 4 and 5 and has no
  offer later; and one whose answer for day 2 holds an offer without a price.
\<close>

definition example_api :: "date \<Rightarrow> date \<Rightarrow> api_response" where
  "example_api dep ret =
     (if dep = 1 then Offers [Fin 400]
      else if dep = 2 then Offers [Fin 365.5, Fin 350]
      else if dep = 3 then Offers [Fin 350, Fin 420]
      else if dep = 4 then RequestFailed
      else if dep = 5 then Status400
      else Offers [])"

definition broken_api :: "date \<Rightarrow> date \<Rightarrow> api_response" where
  "broken_api dep ret = (if dep = 2 then Malformed KeyError else Offers [Fin 400])"

text \<open>A stored record, and the quote that a pass of main finds with \<open>example_api\<close>.\<close>

definition example_quote :: flight_info where
  "example_quote = \<lparr>price = Fin 300, departure_date = 2, return_date = 16, airline = None,
     duration = None, source = None, link = Some (GoogleFlightsLink ''AUS'' ''SFO'' 2 16)\<rparr>"

definition example_found :: flight_info where
  "example_found = \<lparr>price = Fin 350, departure_date = 2, return_date = 16, airline = None,
     duration = None, source = None, link = Some (GoogleFlightsLink ''AUS'' ''SFO'' 2 16)\<rparr>"

text \<open>
  Three passes of main on day 0: with no ledger file, with a cheaper record in the ledger,
  and with no ledger file on a read-only disk.
\<close>

definition first_run :: world where
  "first_run = \<lparr>ledger = Missing, disk_state = Writable, flight_api = example_api,
     date_today = 0\<rparr>"

definition later_run :: world where
  "later_run = \<lparr>ledger = Text (Dumped example_quote), disk_state = Writable,
     flight_api = example_api, date_today = 0\<rparr>"

definition read_only_run :: world where
  "read_only_run = \<lparr>ledger = Missing, disk_state = ReadOnly, flight_api = example_api,
     date_today = 0\<rparr>"


section \<open>Auxiliary facts\<close>

lemma less_PInf_iff: "(p < PInf) = (p \<noteq> PInf)"
  by (cases p) (simp_all add: less_price_def)

lemma Fin_less_PInf: "Fin a < PInf"
  by (simp add: less_price_def)

lemma Fin_less_Fin: "(Fin a < Fin b) = (a < b)"
  by (auto simp: less_price_def)

lemma PInf_greatest: "p \<le> PInf"
  by simp

lemma not_PInf_less: "\<not> PInf < p"
  by (cases p) (simp_all add: less_price_def)

lemma first_min_single: "first_min [f] f"
  unfolding first_min_def by (rule exI [of _ "[]"], rule exI [of _ "[]"]) simp

lemma first_min_snoc_less:
  assumes "first_min qs b" "price f < price b"
  shows "first_min (qs @ [f]) f"
proof -
  from assms(1) obtain pre post where d: "qs = pre @ b # post"
    "\<forall>y \<in> set pre. price b < price y" "\<forall>y \<in> set post. price b \<le> price y"
    unfolding first_min_def by blast
  have "\<forall>y \<in> set qs. price f < price y"
    using d assms(2) by (auto intro: less_le_trans less_trans)
  then show ?thesis
    unfolding first_min_def by (intro exI [of _ qs] exI [of _ "[]"]) simp
qed

lemma first_min_snoc_ge:
  assumes "first_min qs b" "\<not> price f < price b"
  shows "first_min (qs @ [f]) b"
proof -
  from assms(1) obtain pre post where d: "qs = pre @ b # post"
    "\<forall>y \<in> set pre. price b < price y" "\<forall>y \<in> set post. price b \<le> price y"
    unfolding first_min_def by blast
  have "\<forall>y \<in> set (post @ [f]). price b \<le> price y"
    using d(3) assms(2) by auto
  with d(1,2) show ?thesis
    unfolding first_min_def by (intro exI [of _ pre] exI [of _ "post @ [f]"]) simp
qed

lemma find_skip_prefix:
  "\<forall>y \<in> set pre. \<not> P y \<Longrightarrow> P b \<Longrightarrow> find P (pre @ b # post) = Some b"
  by (induction pre) simp_all

lemma spec_discover_first_min:
  assumes "first_min qs b"
  shows "spec_discover qs = Some b"
proof -
  from assms obtain pre post where d: "qs = pre @ b # post"
    "\<forall>y \<in> set pre. price b < price y" "\<forall>y \<in> set post. price b \<le> price y"
    unfolding first_min_def by blast
  have b: "\<forall>q' \<in> set qs. price b \<le> price q'"
    using d by (auto intro: less_imp_le)
  have pre: "\<forall>y \<in> set pre. \<not> (\<forall>q' \<in> set qs. price y \<le> price q')"
    using d by (auto simp: not_le)
  have "find (\<lambda>q. \<forall>q' \<in> set qs. price q \<le> price q') (pre @ b # post) = Some b"
    using pre b by (intro find_skip_prefix) blast+
  then show ?thesis
    unfolding spec_discover_def using d(1) by simp
qed

lemma visit_fallback:
  "visit w today d t s =
     (case fallback w (today + d) (today + (d + t)) of
        None \<Rightarrow> s\<lparr>calls := calls s @ calls_for w (today + d) (today + (d + t))\<rparr>
      | Some f \<Rightarrow>
          if price f < best_price s
          then s\<lparr>calls := calls s @ calls_for w (today + d) (today + (d + t)),
                 best_price := price f, best_flight := Some f\<rparr>
          else s\<lparr>calls := calls s @ calls_for w (today + d) (today + (d + t))\<rparr>)"
  by (cases "search_google_flights (google w (today + d) (today + (d + t))) (today + d) (today + (d + t))")
     (simp_all add: visit_def fallback_def calls_for_def Let_def split: option.splits)

lemma fold_nested:
  "fold (\<lambda>d. fold (g d) ts) ds s = fold (\<lambda>(d, t). g d t) (concat (map (\<lambda>d. map (Pair d) ts) ds)) s"
  by (induction ds arbitrary: s) (simp_all add: fold_map comp_def)

lemma sweep_all_dates_offsets:
  "sweep_all_dates w n today = fold (\<lambda>(d, t). visit w today d t) (offsets n) sweep_init"
  unfolding sweep_all_dates_def offsets_def sweep_init_def by (rule fold_nested)

lemma map_filter_map_pair:
  "List.map_filter (\<lambda>(a, b). f a b) (map (\<lambda>(d, t). (g d t, h d t)) xs) =
   List.map_filter (\<lambda>(d, t). f (g d t) (h d t)) xs"
  by (induction xs) (auto simp: map_filter_simps split: option.splits)

lemma quotes_obtained_offsets: "quotes_obtained w n today = quotes_of w today (offsets n)"
  unfolding quotes_obtained_def quotes_of_def date_pairs_def by (rule map_filter_map_pair)

lemma quotes_of_snoc:
  "quotes_of w today (ps @ [(d, t)]) =
     quotes_of w today ps @
       (case fallback w (today + d) (today + (d + t)) of None \<Rightarrow> [] | Some f \<Rightarrow> [f])"
  by (simp add: quotes_of_def map_filter_def split: option.splits)

lemma sweep_invariant:
  "(filter (\<lambda>q. price q < PInf) (quotes_of w today ps) = [] \<and>
      best_flight (fold (\<lambda>(d, t). visit w today d t) ps sweep_init) = None \<and>
      best_price (fold (\<lambda>(d, t). visit w today d t) ps sweep_init) = PInf) \<or>
   (\<exists>b. first_min (filter (\<lambda>q. price q < PInf) (quotes_of w today ps)) b \<and>
      best_flight (fold (\<lambda>(d, t). visit w today d t) ps sweep_init) = Some b \<and>
      best_price (fold (\<lambda>(d, t). visit w today d t) ps sweep_init) = price b)"
proof (induction ps rule: rev_induct)
  case Nil
  show ?case by (simp add: sweep_init_def quotes_of_def map_filter_simps)
next
  case (snoc p ps)
  obtain d t where p: "p = (d, t)" by (cases p)
  define s where "s = fold (\<lambda>(d, t). visit w today d t) ps sweep_init"
  define qs where "qs = filter (\<lambda>q. price q < PInf) (quotes_of w today ps)"
  have step: "fold (\<lambda>(d, t). visit w today d t) (ps @ [p]) sweep_init = visit w today d t s"
    by (simp add: p s_def)
  have IH: "(qs = [] \<and> best_flight s = None \<and> best_price s = PInf) \<or>
      (\<exists>b. first_min qs b \<and> best_flight s = Some b \<and> best_price s = price b)"
    using snoc.IH unfolding s_def qs_def .
  have goal: "(qs' = [] \<and> best_flight s' = None \<and> best_price s' = PInf) \<or>
      (\<exists>b. first_min qs' b \<and> best_flight s' = Some b \<and> best_price s' = price b)"
    if "s' = visit w today d t s"
      and "qs' = qs @ filter (\<lambda>q. price q < PInf)
         (case fallback w (today + d) (today + (d + t)) of None \<Rightarrow> [] | Some f \<Rightarrow> [f])"
    for s' qs'
  proof (cases "fallback w (today + d) (today + (d + t))")
    case None
    with IH that show ?thesis
      by (simp add: visit_fallback)
  next
    case (Some f)
    show ?thesis
    proof (cases "price f < best_price s")
      case True
      then have fin: "price f < PInf"
        by (cases "best_price s"; cases "price f") (auto simp: less_price_def)
      from IH have "first_min (qs @ [f]) f"
      proof (elim disjE exE conjE)
        assume "qs = []"
        then show ?thesis by (simp add: first_min_single)
      next
        fix b
        assume "first_min qs b" "best_price s = price b"
        with True show ?thesis by (simp add: first_min_snoc_less)
      qed
      with True fin Some that show ?thesis
        by (simp add: visit_fallback)
    next
      case False
      show ?thesis
      proof (cases "price f < PInf")
        case inf: False
        with False Some IH that show ?thesis
          by (simp add: visit_fallback)
      next
        case fin: True
        with False have "best_price s \<noteq> PInf" by auto
        with IH obtain b where b: "first_min qs b" "best_flight s = Some b"
          "best_price s = price b" by auto
        with False have "first_min (qs @ [f]) b" by (simp add: first_min_snoc_ge)
        with False fin Some b that show ?thesis
          by (simp add: visit_fallback)
      qed
    qed
  qed
  have "filter (\<lambda>q. price q < PInf) (quotes_of w today (ps @ [p])) =
      qs @ filter (\<lambda>q. price q < PInf)
         (case fallback w (today + d) (today + (d + t)) of None \<Rightarrow> [] | Some f \<Rightarrow> [f])"
    by (simp add: p qs_def quotes_of_snoc)
  with goal [OF step] show ?case by simp
qed

lemma spec_discover_Nil: "spec_discover [] = None"
  by (simp add: spec_discover_def)

lemma check_all_dates_finite_min:
  "check_all_dates w n today =
     spec_discover (filter (\<lambda>q. price q < PInf) (quotes_obtained w n today))"
  using sweep_invariant [of w today "offsets n"]
  by (auto simp: check_all_dates_def sweep_all_dates_offsets quotes_obtained_offsets
        spec_discover_Nil spec_discover_first_min)

lemma sweep_calls:
  "calls (fold (\<lambda>(d, t). visit w today d t) ps s) =
     calls s @ concat (map (\<lambda>(d, t). calls_for w (today + d) (today + (d + t))) ps)"
  by (induction ps arbitrary: s) (auto simp: visit_fallback split: option.splits)

lemmas find_loop_unfold = find_loop.simps

declare find_loop.simps [simp del]

lemma first_min_extend:
  assumes "(qs = [] \<and> ch = None) \<or> (\<exists>b. first_min qs b \<and> ch = Some b)"
    and "price q = m"
  shows "(qs @ [q] = [] \<and>
           (if (case ch of None \<Rightarrow> True | Some c \<Rightarrow> m < price c) then Some q else ch) = None) \<or>
         (\<exists>b. first_min (qs @ [q]) b \<and>
           (if (case ch of None \<Rightarrow> True | Some c \<Rightarrow> m < price c) then Some q else ch) = Some b)"
  using assms(1)
proof (elim disjE exE conjE)
  assume "qs = []" "ch = None"
  then show ?thesis by (simp add: first_min_single)
next
  fix b
  assume b: "first_min qs b" "ch = Some b"
  show ?thesis
  proof (cases "price q < price b")
    case True
    with b assms(2) show ?thesis by (simp add: first_min_snoc_less)
  next
    case False
    with b assms(2) show ?thesis by (simp add: first_min_snoc_ge)
  qed
qed

lemma find_loop_result:
  assumes "\<forall>d. current_date \<le> d \<and> d \<le> end_date \<longrightarrow> \<not> is_malformed (api d (d + trip_duration))"
    and "(qs = [] \<and> cheapest_flight = None) \<or> (\<exists>b. first_min qs b \<and> cheapest_flight = Some b)"
  shows "fst (find_loop api origin destination end_date trip_duration current_date cheapest_flight sent) =
     Inr (spec_discover (qs @ List.map_filter (offer_quote api origin destination trip_duration)
        [current_date..end_date]))"
  using assms
proof (induction api origin destination end_date trip_duration current_date cheapest_flight sent
    arbitrary: qs rule: find_loop.induct)
  case (1 api origin destination end_date trip_duration current_date cheapest_flight sent)
  show ?case
  proof (cases "current_date \<le> end_date")
    case False
    with "1.prems"(2) show ?thesis
      by (subst find_loop_unfold)
        (auto simp: map_filter_simps spec_discover_Nil spec_discover_first_min)
  next
    case True
    then have range: "[current_date..end_date] = current_date # [current_date + 1..end_date]"
      by (simp add: upto_rec1)
    have rest: "\<forall>d. current_date + 1 \<le> d \<and> d \<le> end_date \<longrightarrow>
        \<not> is_malformed (api d (d + trip_duration))"
      using "1.prems"(1) by auto
    have here: "\<not> is_malformed (api current_date (current_date + trip_duration))"
      using "1.prems"(1) True by auto
    show ?thesis
    proof (cases "api current_date (current_date + trip_duration)")
      case RequestFailed
      then have oq: "offer_quote api origin destination trip_duration current_date = None"
        by (simp add: offer_quote_def)
      with True RequestFailed "1.IH"(1) [OF True RequestFailed rest "1.prems"(2)] show ?thesis
        by (subst find_loop_unfold) (simp add: range map_filter_simps)
    next
      case Status400
      then have oq: "offer_quote api origin destination trip_duration current_date = None"
        by (simp add: offer_quote_def)
      with True Status400 "1.IH"(2) [OF True Status400 rest "1.prems"(2)] show ?thesis
        by (subst find_loop_unfold) (simp add: range map_filter_simps)
    next
      case (Malformed e)
      with here show ?thesis by simp
    next
      case (Offers ps)
      show ?thesis
      proof (cases ps)
        case Nil
        with Offers have oq: "offer_quote api origin destination trip_duration current_date = None"
          by (simp add: offer_quote_def)
        with Nil True Offers "1.IH"(3) [OF True Offers Nil rest "1.prems"(2)] show ?thesis
          by (subst find_loop_unfold) (simp add: range map_filter_simps)
      next
        case (Cons p ps')
        let ?q = "\<lparr>price = min_by (\<lambda>x. x) p ps', departure_date = current_date,
            return_date = current_date + trip_duration, airline = None, duration = None,
            source = None,
            link = Some (GoogleFlightsLink origin destination current_date
               (current_date + trip_duration))\<rparr>"
        have oq: "offer_quote api origin destination trip_duration current_date = Some ?q"
          by (simp add: offer_quote_def Offers Cons)
        have inv: "(qs @ [?q] = [] \<and>
              (if (case cheapest_flight of None \<Rightarrow> True
                   | Some c \<Rightarrow> min_by (\<lambda>x. x) p ps' < price c)
               then Some ?q else cheapest_flight) = None) \<or>
            (\<exists>b. first_min (qs @ [?q]) b \<and>
              (if (case cheapest_flight of None \<Rightarrow> True
                   | Some c \<Rightarrow> min_by (\<lambda>x. x) p ps' < price c)
               then Some ?q else cheapest_flight) = Some b)"
          by (rule first_min_extend [OF "1.prems"(2)]) simp
        have "fst (find_loop api origin destination end_date trip_duration (current_date + 1)
              (if (case cheapest_flight of None \<Rightarrow> True
                   | Some c \<Rightarrow> min_by (\<lambda>x. x) p ps' < price c)
               then Some ?q else cheapest_flight)
              (sent @ [(current_date, current_date + trip_duration)])) =
            Inr (spec_discover ((qs @ [?q]) @
              List.map_filter (offer_quote api origin destination trip_duration)
                [current_date + 1..end_date]))"
          by (rule "1.IH"(4) [OF True Offers Cons rest inv])
        then show ?thesis
          by (subst find_loop_unfold) (simp add: True Offers Cons range map_filter_simps oq)
      qed
    qed
  qed
qed

lemma spec_discover_mem: "spec_discover qs = Some b \<Longrightarrow> b \<in> set qs"
  by (auto simp: spec_discover_def find_Some_iff)

lemma min_by_mem: "min_by f b xs \<in> set (b # xs)"
  by (induction xs arbitrary: b) (auto split: if_splits)

lemma parse_price_nonneg: "parse_price t = Inr (Fin x) \<Longrightarrow> 0 \<le> x"
  by (auto simp: parse_price_def Let_def split: if_splits)

lemma kayak_price_finite: "kayak_price e = Some p \<Longrightarrow> \<exists>x. p = Fin x \<and> 0 \<le> x"
  by (cases p) (auto simp: kayak_price_def not_PInf_less split: option.splits sum.splits if_splits
      dest: parse_price_nonneg)

lemma search_kayak_finite:
  assumes "search_kayak page dep ret = Some f"
  shows "\<exists>x. price f = Fin x \<and> 0 \<le> x"
proof -
  from assms obtain elems p ps where
    ps: "List.map_filter kayak_price (take 5 elems) = p # ps" and f: "price f = min_by (\<lambda>x. x) p ps"
    by (auto simp: search_kayak_def split: kayak_page.splits list.splits)
  have "min_by (\<lambda>x. x) p ps \<in> set (List.map_filter kayak_price (take 5 elems))"
    unfolding ps by (rule min_by_mem)
  then obtain e where "kayak_price e = Some (min_by (\<lambda>x. x) p ps)"
    by (auto simp: map_filter_def)
  with f show ?thesis by (auto dest: kayak_price_finite)
qed

lemma load_price_history_absorbs:
  "load_price_history self HMissing = self"
  "load_price_history self HUnreadable = self"
  "load_price_history self HGarbled = self"
  by (simp_all add: load_price_history_def load_price_history_body_def)




lemma sweep_calls_date_pairs:
  "calls (sweep_all_dates w n today) =
     concat (map (\<lambda>(dep, ret). calls_for w dep ret) (date_pairs n today))"
proof -
  have "calls (sweep_all_dates w n today) =
      concat (map (\<lambda>(d, t). calls_for w (today + d) (today + (d + t))) (offsets n))"
    unfolding sweep_all_dates_offsets sweep_calls by (simp add: sweep_init_def)
  also have "map (\<lambda>(d, t). calls_for w (today + d) (today + (d + t))) (offsets n) =
      map (\<lambda>(dep, ret). calls_for w dep ret) (date_pairs n today)"
    unfolding date_pairs_def by (induction "offsets n") auto
  finally show ?thesis .
qed


lemma scraper_all_lookups_fail:
  assumes "\<forall>dep ret. search_google_flights (google w dep ret) dep ret = None \<and>
     search_kayak (kayak w dep ret) dep ret = None"
  shows "check_all_dates w n today = None"
proof -
  have "quotes_obtained w n today = []"
    using assms by (simp add: quotes_obtained_def fallback_def map_filter_def split_def)
  then show ?thesis
    by (simp add: check_all_dates_finite_min spec_discover_Nil)
qed

lemma failing_web_swept:
  "check_all_dates failing_web n today = None \<and>
   calls (sweep_all_dates failing_web n today) =
     concat (map (\<lambda>(dep, ret). [Google dep ret, Kayak dep ret]) (date_pairs n today))"
  by (simp add: scraper_all_lookups_fail sweep_calls_date_pairs calls_for_def failing_web_def
      search_google_flights_def search_kayak_def)

lemma api_requests_fail:
  assumes "\<forall>d. start_date \<le> d \<and> d \<le> end_date \<longrightarrow>
     api d (d + trip_duration) = RequestFailed \<or> api d (d + trip_duration) = Status400 \<or>
     api d (d + trip_duration) = Offers []"
  shows "fst (find_cheapest_flight api origin destination start_date end_date trip_duration) =
     Inr None"
proof -
  have ok: "\<forall>d. start_date \<le> d \<and> d \<le> end_date \<longrightarrow> \<not> is_malformed (api d (d + trip_duration))"
    using assms by fastforce
  have none: "List.map_filter (offer_quote api origin destination trip_duration)
      [start_date..end_date] = []"
    using assms by (fastforce simp: map_filter_def offer_quote_def filter_empty_conv)
  have "fst (find_loop api origin destination end_date trip_duration start_date None []) =
      Inr (spec_discover ([] @ List.map_filter (offer_quote api origin destination trip_duration)
        [start_date..end_date]))"
    using ok
    by (rule find_loop_result [where api = api and current_date = start_date
          and end_date = end_date and trip_duration = trip_duration and qs = "[]"
          and cheapest_flight = None]) simp
  then show ?thesis
    by (simp add: find_cheapest_flight_def none spec_discover_Nil)
qed

subsection \<open>The example inputs, evaluated\<close>

lemma date_pairs_1: "date_pairs 1 0 = [(1, 3), (1, 4), (1, 5), (1, 6), (1, 7), (1, 8)]"
  by code_simp

lemma example_google:
  "search_google_flights (google example_web 1 ret) 1 ret = (if ret = 3 then Some q350 else None)"
  by (simp add: example_web_def search_google_flights_def parse_card_def parse_price_def
      in_class_def is_digit_def map_filter_simps q350_def decimal_def digit_val_def
      less_price_def)

lemma example_kayak:
  "search_kayak (kayak example_web 1 ret) 1 ret = (if ret = 4 then Some q299 else None)"
  by (simp add: example_web_def search_kayak_def kayak_price_def parse_price_def
      in_class_def is_digit_def map_filter_simps q299_def decimal_def digit_val_def
      less_price_def)

lemma example_quotes: "quotes_obtained example_web 1 0 = [q350, q299]"
  by (simp add: quotes_obtained_def date_pairs_1 fallback_def example_google example_kayak
      map_filter_simps)

lemma example_sweep_result: "check_all_dates example_web 1 0 = Some q299"
  by (simp add: check_all_dates_finite_min example_quotes spec_discover_def q350_def q299_def
      less_price_def)

lemma sold_out_fallback:
  "fallback sold_out_web dep ret =
     Some \<lparr>price = PInf, departure_date = dep, return_date = ret, airline = Some ''Unknown'',
       duration = Some ''Unknown'', source = None, link = None\<rparr>"
  by (simp add: fallback_def sold_out_web_def search_google_flights_def parse_card_def
      parse_price_def in_class_def is_digit_def map_filter_simps)

lemma example_offers:
  "offers_obtained example_api ''AUS'' ''SFO'' 1 3 7 =
     [\<lparr>price = Fin 400, departure_date = 1, return_date = 8, airline = None, duration = None,
        source = None, link = Some (GoogleFlightsLink ''AUS'' ''SFO'' 1 8)\<rparr>,
      \<lparr>price = Fin 350, departure_date = 2, return_date = 9, airline = None, duration = None,
        source = None, link = Some (GoogleFlightsLink ''AUS'' ''SFO'' 2 9)\<rparr>,
      \<lparr>price = Fin 350, departure_date = 3, return_date = 10, airline = None, duration = None,
        source = None, link = Some (GoogleFlightsLink ''AUS'' ''SFO'' 3 10)\<rparr>]"
  by code_simp



lemma example_cycle_search:
  "fst (find_cheapest_flight example_api ''AUS'' ''SFO'' 1 14 14) = Inr (Some example_found)"
  by code_simp

section \<open>The claims\<close>

subsection \<open>C1: the cheapest quote\<close>

text \<open>
  Claim C1 says that the discovery returns the quote of least price among all quotes
  obtained, the first of them on equal prices, and None only when no pair of dates yielded
  a quote. For the scraper it does not hold as stated: with \<open>sold_out_web\<close> every pair
  yields a quote, of infinite price, and \<^verbatim>\<open>check_all_dates\<close> returns None.
\<close>

theorem discovery_drops_infinite_quote:
  "check_all_dates sold_out_web 1 0 = None \<and>
   spec_discover (quotes_obtained sold_out_web 1 0) =
     Some \<lparr>price = PInf, departure_date = 1, return_date = 3, airline = Some ''Unknown'',
       duration = Some ''Unknown'', source = None, link = None\<rparr>"
  by (simp add: check_all_dates_finite_min quotes_obtained_def date_pairs_1 sold_out_fallback
      map_filter_simps spec_discover_def less_price_def)

text \<open>
  Claim C1, amended. When every quote obtained has a price below infinity,
  \<^verbatim>\<open>check_all_dates\<close> returns the first quote of least price among the quotes
  obtained over all pairs of dates, and None when there is none. When no answer of the
  API is malformed, \<^verbatim>\<open>find_cheapest_flight\<close> returns the first quote of least price
  among the quotes of all departure dates, and None when there is none.
\<close>

theorem discovery_returns_first_minimum:
  "((\<forall>q \<in> set (quotes_obtained w search_days today). price q < PInf) \<longrightarrow>
      check_all_dates w search_days today = spec_discover (quotes_obtained w search_days today)) \<and>
   ((\<forall>d \<in> set [start_date..end_date]. \<not> is_malformed (api d (d + trip_duration))) \<longrightarrow>
      fst (find_cheapest_flight api origin destination start_date end_date trip_duration) =
        Inr (spec_discover
          (offers_obtained api origin destination start_date end_date trip_duration)))"
proof (intro conjI impI)
  assume "\<forall>q \<in> set (quotes_obtained w search_days today). price q < PInf"
  then have "filter (\<lambda>q. price q < PInf) (quotes_obtained w search_days today) =
      quotes_obtained w search_days today"
    by simp
  then show "check_all_dates w search_days today =
      spec_discover (quotes_obtained w search_days today)"
    by (simp add: check_all_dates_finite_min)
next
  assume "\<forall>d \<in> set [start_date..end_date]. \<not> is_malformed (api d (d + trip_duration))"
  then have ok: "\<forall>d. start_date \<le> d \<and> d \<le> end_date \<longrightarrow>
      \<not> is_malformed (api d (d + trip_duration))"
    by simp
  have "fst (find_loop api origin destination end_date trip_duration start_date None []) =
      Inr (spec_discover ([] @ List.map_filter (offer_quote api origin destination trip_duration)
        [start_date..end_date]))"
    using ok
    by (rule find_loop_result [where api = api and current_date = start_date
          and end_date = end_date and trip_duration = trip_duration and qs = "[]"
          and cheapest_flight = None]) simp
  then show "fst (find_cheapest_flight api origin destination start_date end_date trip_duration) =
      Inr (spec_discover
        (offers_obtained api origin destination start_date end_date trip_duration))"
    by (simp add: find_cheapest_flight_def offers_obtained_def)
qed

theorem discovery_returns_first_minimum_witness:
  "check_all_dates example_web 1 0 = Some q299 \<and>
   fst (find_cheapest_flight example_api ''AUS'' ''SFO'' 1 3 7) =
     Inr (Some \<lparr>price = Fin 350, departure_date = 2, return_date = 9, airline = None,
        duration = None, source = None, link = Some (GoogleFlightsLink ''AUS'' ''SFO'' 2 9)\<rparr>)"
  using discovery_returns_first_minimum [of example_web 1 0 1 3 example_api 7 "''AUS''" "''SFO''"]
  by (simp add: example_quotes example_offers spec_discover_def q350_def q299_def less_price_def
      example_api_def upto_rec1)

subsection \<open>C2: the dates searched\<close>



subsection \<open>C3: the new-record test\<close>

text \<open>
  Claim C3. The new-record test is true exactly when the price of the candidate is strictly
  less than the price of the current record. A candidate at the price of the record is no
  new record: at a record of 250.00 a candidate of 250.00 fails the test and a candidate
  of 249.99 passes it. The sweep of the scraper replaces its running best by the same
  strict comparison.
\<close>

theorem new_record_test_is_strict:
  "is_new_record (Some c) best = (price c < ledger_price best) \<and>
   \<not> is_new_record (Some c) (Stored (b\<lparr>price := price c\<rparr>)) \<and>
   \<not> is_new_record (Some (c\<lparr>price := Fin 250\<rparr>)) (Stored (b\<lparr>price := Fin 250\<rparr>)) \<and>
   is_new_record (Some (c\<lparr>price := Fin 249.99\<rparr>)) (Stored (b\<lparr>price := Fin 250\<rparr>)) \<and>
   best_flight (visit w today d t s) =
     (case fallback w (today + d) (today + (d + t)) of
        None \<Rightarrow> best_flight s
      | Some f \<Rightarrow> if price f < best_price s then Some f else best_flight s)"
  by (simp add: is_new_record_def Fin_less_Fin visit_fallback split: option.splits)

theorem new_record_test_is_strict_witness:
  "\<not> is_new_record (Some example_quote) (Stored example_quote) \<and>
   is_new_record (Some example_quote) NoRecordYet"
  using new_record_test_is_strict [of example_quote NoRecordYet example_quote]
  by (simp add: example_quote_def Fin_less_PInf)

subsection \<open>C4: the price of a quote\<close>

text \<open>
  Claim C4 says that every quote of a lookup has a finite, non-negative price, and that a
  lookup that finds no price returns no quote. The Kayak lookup keeps that
  (\<open>search_kayak_finite\<close>: it drops every infinite price). The Google Flights lookup does
  not: for a card whose price element holds no digit, \<^verbatim>\<open>parse_price\<close> returns
  infinity and the lookup returns a quote with that price.
\<close>

theorem google_quote_with_infinite_price:
  "search_google_flights (GCards [\<lparr>price_text = Some ''Price unavailable'', details = None\<rparr>]) dep ret =
     Some \<lparr>price = PInf, departure_date = dep, return_date = ret, airline = Some ''Unknown'',
       duration = Some ''Unknown'', source = None, link = None\<rparr>"
  by (simp add: search_google_flights_def parse_card_def parse_price_def in_class_def is_digit_def
      map_filter_simps)

subsection \<open>C5: loading the ledger\<close>

text \<open>
  Claim C5 says that loading the ledger never raises and gives "no record yet" for a
  missing, corrupt or unreadable file. \<^verbatim>\<open>load_price_history\<close> of the scraper does so
  (\<open>load_price_history_absorbs\<close>). \<^verbatim>\<open>load_best_price\<close> of the API variant has no
  handler: on a file that is no JSON document, or that cannot be opened, the exception
  leaves it and ends the pass of main.
\<close>

theorem load_best_price_raises_on_corrupt_ledger:
  "load_best_price (Text Garbled) = Inl JSONDecodeError \<and>
   load_best_price (Text Blank) = Inl JSONDecodeError \<and>
   load_best_price Unreadable = Inl PermissionError \<and>
   run_cycle (w\<lparr>ledger := Text Garbled\<rparr>) =
     \<lparr>raised = Some JSONDecodeError, events = [], ledger_after = Text Garbled\<rparr>"
  by (simp add: run_cycle_def)

subsection \<open>C6: committing to the ledger\<close>

text \<open>
  Claim C6 says that the commit replaces the stored record atomically, so that no reader
  sees a partial file. It does not hold: \<^verbatim>\<open>save_best_price\<close> opens the ledger file
  itself for writing, which empties it, and the empty file is no JSON document.
\<close>

theorem save_best_price_not_atomic:
  "\<not> list_all (\<lambda>file. file = Missing \<or> file = Text (Dumped example_quote))
       (save_best_price_states Writable example_quote) \<and>
   load_best_price (hd (save_best_price_states Writable example_quote)) = Inl JSONDecodeError"
  by simp

text \<open>
  Claim C6, amended. On a writable disk the commit overwrites the ledger file in place: it
  empties the file and then writes the candidate, and a load after the commit returns the
  candidate. On a read-only disk it raises and leaves the file as it was.
\<close>

theorem save_best_price_overwrites_in_place:
  "save_best_price Writable file f = (None, Text (Dumped f)) \<and>
   load_best_price (snd (save_best_price Writable file f)) = Inr (Stored f) \<and>
   save_best_price_states Writable f = [Text Blank, Text (Dumped f)] \<and>
   save_best_price ReadOnly file f = (Some PermissionError, file)"
  by (simp add: save_best_price_def)

theorem save_best_price_overwrites_in_place_witness:
  "load_best_price (snd (save_best_price Writable Missing example_quote)) = Inr (Stored example_quote)"
  using save_best_price_overwrites_in_place [of Missing example_quote] by simp

subsection \<open>C7: failed lookups\<close>

text \<open>
  Claim C7 says that the discovery never raises, whatever the sources do, that it still
  sweeps all dates and that it returns None when no quote was obtained. The scraper does
  so (\<open>scraper_all_lookups_fail\<close>, \<open>failing_web_swept\<close>), and so does the API variant for
  failed requests, status 400 and empty answers (\<open>api_requests_fail\<close>). But the handler
  of \<^verbatim>\<open>find_cheapest_flight\<close> catches RequestException only: with an offer that has
  no price on day 2, the KeyError leaves the function after two requests, the quote of
  day 1 is lost and the pass of main ends with the exception.
\<close>

theorem find_cheapest_flight_raises_on_malformed_offer:
  "find_cheapest_flight broken_api ''AUS'' ''SFO'' 1 14 14 = (Inl KeyError, [(1, 15), (2, 16)]) \<and>
   raised (run_cycle \<lparr>ledger = Missing, disk_state = Writable, flight_api = broken_api,
       date_today = 0\<rparr>) = Some KeyError"
  by code_simp

subsection \<open>C8: the order of the sources\<close>

text \<open>
  Claim C8. For every pair of dates the sweep searches Google Flights first, and Kayak
  only when Google Flights returned no quote; the quote used for the pair is that of
  Google Flights when there is one, and that of Kayak otherwise.
\<close>

theorem primary_source_first:
  "calls (sweep_all_dates w search_days today) =
     concat (map (\<lambda>(dep, ret).
         Google dep ret #
           (if search_google_flights (google w dep ret) dep ret = None then [Kayak dep ret]
            else []))
       (date_pairs search_days today)) \<and>
   check_all_dates w search_days today =
     spec_discover (filter (\<lambda>q. price q < PInf)
       (List.map_filter (\<lambda>(dep, ret).
            case search_google_flights (google w dep ret) dep ret of
              None \<Rightarrow> search_kayak (kayak w dep ret) dep ret
            | Some f \<Rightarrow> Some f)
          (date_pairs search_days today)))"
  using sweep_calls_date_pairs [of w search_days today]
    check_all_dates_finite_min [of w search_days today]
  unfolding quotes_obtained_def fallback_def calls_for_def by simp

theorem primary_source_first_witness:
  "calls (sweep_all_dates example_web 1 0) =
     [Google 1 3, Google 1 4, Kayak 1 4, Google 1 5, Kayak 1 5, Google 1 6, Kayak 1 6,
      Google 1 7, Kayak 1 7, Google 1 8, Kayak 1 8] \<and>
   check_all_dates example_web 1 0 = Some q299"
  using primary_source_first [of example_web 1 0]
  by (simp add: date_pairs_1 example_google example_kayak map_filter_simps spec_discover_def
      q350_def q299_def less_price_def)

subsection \<open>C9: notification after commit\<close>

text \<open>
  Claim C9. In a pass of main in which the new-record test is true and the commit
  succeeds, the notification is called exactly once, after the commit. When the test is
  true and the commit fails, the notification is not called and the exception leaves the
  pass. When the test is false, neither commit nor notification happens; nor do they in
  a pass that an exception ends before the test.
\<close>

theorem notify_once_after_commit:
  "(load_best_price (ledger w) = Inr best \<and>
    fst (find_cheapest_flight (flight_api w) ORIGIN_CITY_CODE DESTINATION_CITY_CODE
          (date_today w + 1) (date_today w + SEARCH_WITHIN_DAYS) TRIP_DURATION_DAYS) = Inr found
    \<longrightarrow>
      (is_new_record found best \<and> disk_state w = Writable \<longrightarrow>
         (\<exists>c. found = Some c \<and> events (run_cycle w) = [Commit c, Notify c] \<and>
            ledger_after (run_cycle w) = Text (Dumped c))) \<and>
      (is_new_record found best \<and> disk_state w \<noteq> Writable \<longrightarrow>
         events (run_cycle w) = [] \<and> raised (run_cycle w) \<noteq> None) \<and>
      (\<not> is_new_record found best \<longrightarrow>
         events (run_cycle w) = [] \<and> ledger_after (run_cycle w) = ledger w)) \<and>
   (load_best_price (ledger w) = Inl e \<or>
    fst (find_cheapest_flight (flight_api w) ORIGIN_CITY_CODE DESTINATION_CITY_CODE
          (date_today w + 1) (date_today w + SEARCH_WITHIN_DAYS) TRIP_DURATION_DAYS) = Inl e
    \<longrightarrow> events (run_cycle w) = [])"
proof (intro conjI impI)
  assume "load_best_price (ledger w) = Inl e \<or>
    fst (find_cheapest_flight (flight_api w) ORIGIN_CITY_CODE DESTINATION_CITY_CODE
          (date_today w + 1) (date_today w + SEARCH_WITHIN_DAYS) TRIP_DURATION_DAYS) = Inl e"
  then show "events (run_cycle w) = []"
    by (auto simp: run_cycle_def split: sum.splits)
qed (cases found; cases "disk_state w";
     auto simp: run_cycle_def is_new_record_def save_best_price_def)+

theorem notify_once_after_commit_witness:
  "events (run_cycle first_run) = [Commit example_found, Notify example_found] \<and>
   ledger_after (run_cycle first_run) = Text (Dumped example_found) \<and>
   events (run_cycle later_run) = [] \<and>
   ledger_after (run_cycle later_run) = Text (Dumped example_quote) \<and>
   events (run_cycle read_only_run) = [] \<and>
   raised (run_cycle read_only_run) \<noteq> None"
  using notify_once_after_commit [of first_run NoRecordYet "Some example_found"]
    notify_once_after_commit [of later_run "Stored example_quote" "Some example_found"]
    notify_once_after_commit [of read_only_run NoRecordYet "Some example_found"]
    example_cycle_search
  by (simp add: first_run_def later_run_def read_only_run_def ORIGIN_CITY_CODE_def
      DESTINATION_CITY_CODE_def SEARCH_WITHIN_DAYS_def TRIP_DURATION_DAYS_def is_new_record_def
      example_found_def example_quote_def less_price_def)

subsection \<open>C10: no infinite price leaves the sweep\<close>

text \<open>
  Claim C10. \<^verbatim>\<open>check_all_dates\<close> returns None or a quote whose price is strictly
  less than infinity, whatever the two sites show.
\<close>

theorem check_all_dates_never_returns_infinite_price:
  "check_all_dates w search_days today = None \<or>
   (\<exists>f. check_all_dates w search_days today = Some f \<and> price f < PInf)"
proof (cases "check_all_dates w search_days today")
  case None
  then show ?thesis by simp
next
  case (Some f)
  then have "f \<in> set (filter (\<lambda>q. price q < PInf) (quotes_obtained w search_days today))"
    unfolding check_all_dates_finite_min by (rule spec_discover_mem)
  with Some show ?thesis by simp
qed

theorem check_all_dates_never_returns_infinite_price_witness:
  "\<exists>f. check_all_dates example_web 1 0 = Some f \<and> price f < PInf"
  using check_all_dates_never_returns_infinite_price [of example_web 1 0] example_sweep_result
  by simp

end
